theory Spec2Isabelle
  imports Main
begin

section \<open>JavaScript strings and numbers used by the scripts\<close>

text \<open>
  The scripts handle ledger data as hexadecimal strings (\<open>0x...\<close>), as the RPC layer
  returns them, and convert them with \<open>BigInt(s)\<close>, \<open>parseInt(s, 16)\<close>,
  \<open>s.slice(a, b)\<close>, \<open>s.startsWith(p)\<close> and \<open>s.toLowerCase()\<close>. Strings
  are modelled as \<open>string\<close>; a bigint is an \<open>int\<close>; a thrown exception is the
  left summand of a sum type.
\<close>

datatype message =
    TransactionFailed
  | SubscriptionDoesNotExist int
  | NoUsableSubscription
  | TypeError
  | SyntaxError
  | ValueOutOfBounds
  | InvalidBytesLike
  | Reverted
  | TransportFailure

text \<open>
  A JavaScript error object: what it says and the optional \<open>data\<close> field that ethers
  attaches to a revert (the raw revert bytes as a hex string).
\<close>

datatype error = Error message "string option"

fun error_data :: "error \<Rightarrow> string option" where
  "error_data (Error m d) = d"

definition hex_digit :: "char \<Rightarrow> int option" where
  "hex_digit c =
     (let n = (of_char c :: int) in
      if 48 \<le> n \<and> n \<le> 57 then Some (n - 48)
      else if 97 \<le> n \<and> n \<le> 102 then Some (n - 87)
      else if 65 \<le> n \<and> n \<le> 70 then Some (n - 55)
      else None)"

text \<open>Horner evaluation of a digit string; \<open>None\<close> as soon as a character is no hex digit.\<close>

fun hex_value :: "int \<Rightarrow> string \<Rightarrow> int option" where
  "hex_value acc [] = Some acc"
| "hex_value acc (c # cs) =
     (case hex_digit c of None \<Rightarrow> None | Some d \<Rightarrow> hex_value (16 * acc + d) cs)"

definition startsWith :: "string \<Rightarrow> string \<Rightarrow> bool" where
  "startsWith s p = (take (length p) s = p)"

text \<open>\<open>s.slice(a, b)\<close> for \<open>0 \<le> a\<close>, \<open>0 \<le> b\<close>: indices are clipped to the length.\<close>

definition slice :: "string \<Rightarrow> nat \<Rightarrow> nat \<Rightarrow> string" where
  "slice s a b = take (b - a) (drop a s)"

definition toLowerCase :: "string \<Rightarrow> string" where
  "toLowerCase s =
     map (\<lambda>c. let n = (of_char c :: int) in
               if 65 \<le> n \<and> n \<le> 90 then char_of (n + 32) else c) s"

definition is_decimal_digit :: "char \<Rightarrow> bool" where
  "is_decimal_digit c = (let n = (of_char c :: int) in 48 \<le> n \<and> n \<le> 57)"

fun decimal_value :: "int \<Rightarrow> string \<Rightarrow> int" where
  "decimal_value acc [] = acc"
| "decimal_value acc (c # cs) = decimal_value (10 * acc + (of_char c - 48)) cs"

text \<open>
  \<open>BigInt(s)\<close> on a string: the empty string is \<open>0n\<close>; after \<open>0x\<close> or \<open>0X\<close> the
  hexadecimal digits are read; otherwise the string is a decimal number with an
  optional sign. Anything else throws a \<open>SyntaxError\<close>, here \<open>None\<close>. The scripts
  pass strings built as \<open>"0x" + ...\<close> and hex quantities of logs and storage reads;
  binary and octal literals and surrounding white space, which \<open>BigInt\<close> also accepts,
  are not modelled and read as a \<open>SyntaxError\<close>.
\<close>

definition BigInt :: "string \<Rightarrow> int option" where
  "BigInt s =
     (if s = [] then Some 0
      else if startsWith s ''0x'' \<or> startsWith s ''0X'' then
        (if drop 2 s = [] then None else hex_value 0 (drop 2 s))
      else if startsWith s ''-'' \<and> tl s \<noteq> [] \<and> list_all is_decimal_digit (tl s)
      then Some (- decimal_value 0 (tl s))
      else if startsWith s ''+'' \<and> tl s \<noteq> [] \<and> list_all is_decimal_digit (tl s)
      then Some (decimal_value 0 (tl s))
      else if list_all is_decimal_digit s then Some (decimal_value 0 s)
      else None)"

text \<open>
  \<open>parseInt(s, 16)\<close>: an optional \<open>0x\<close> prefix, then the longest run of hex digits;
  \<open>NaN\<close> (here \<open>None\<close>) when that run is empty. The result is a double in
  JavaScript; the scripts only test it with \<open>> 0\<close>, which rounding does not change.
  Signs and leading white space are not modelled.
\<close>

definition is_hex_digit :: "char \<Rightarrow> bool" where
  "is_hex_digit c = (hex_digit c \<noteq> None)"

definition parseInt16 :: "string \<Rightarrow> int option" where
  "parseInt16 s =
     (let body = (if startsWith s ''0x'' \<or> startsWith s ''0X'' then drop 2 s else s);
          digits = takeWhile is_hex_digit body
      in if digits = [] then None else hex_value 0 digits)"

text \<open>\<open>n > 0\<close> on a parsed number: false for \<open>NaN\<close>.\<close>

definition positive :: "int option \<Rightarrow> bool" where
  "positive n = (case n of None \<Rightarrow> False | Some v \<Rightarrow> 0 < v)"

definition hex_char :: "int \<Rightarrow> char" where
  "hex_char d = (if d < 10 then char_of (48 + d) else char_of (87 + d))"

text \<open>The last \<open>n\<close> hexadecimal digits of \<open>v\<close>, most significant first.\<close>

fun hex_digits :: "nat \<Rightarrow> int \<Rightarrow> string" where
  "hex_digits 0 v = []"
| "hex_digits (Suc n) v = hex_digits n (v div 16) @ [hex_char (v mod 16)]"

text \<open>
  A 32-byte word as the RPC layer and the ABI coder print it: \<open>0x\<close> and 64 lower-case
  hex digits. For \<open>0 \<le> v < 2^256\<close> this is
  \<open>"0x" + v.toString(16).padStart(64, '0')\<close>.
\<close>

definition word_hex :: "int \<Rightarrow> string" where
  "word_hex v = ''0x'' @ hex_digits 64 v"

section \<open>Proving keys: \<open>encodeOnChainVRFProvingKey\<close>\<close>

record proving_key =
  keyHash :: string
  compressed :: string
  coordinates :: "string \<times> string"

text \<open>
  \<open>ethers.keccak256\<close> is a library function: it is a parameter of the model. It throws
  on a string that is no even-length hex string, which is \<open>None\<close>.
\<close>

definition encodeOnChainVRFProvingKey ::
  "(string \<Rightarrow> string option) \<Rightarrow> string \<Rightarrow> error + proving_key" where
  "encodeOnChainVRFProvingKey keccak256 uncompressedPubKey =
     (let pubKeyBytes0 = (if startsWith uncompressedPubKey ''0x''
                          then drop 2 uncompressedPubKey else uncompressedPubKey);
          pubKeyBytes = (if \<not> startsWith pubKeyBytes0 ''04''
                         then ''04'' @ pubKeyBytes0 else pubKeyBytes0);
          xHex = ''0x'' @ slice pubKeyBytes 2 66;
          yHex = ''0x'' @ slice pubKeyBytes 66 130
      in case BigInt xHex of
           None \<Rightarrow> Inl (Error SyntaxError None)
         | Some x \<Rightarrow>
             (case BigInt yHex of
                None \<Rightarrow> Inl (Error SyntaxError None)
              | Some y \<Rightarrow>
                  (let prefix = (if y mod 2 = 0 then ''02'' else ''03'');
                       compressedKeyHex = prefix @ slice pubKeyBytes 2 66;
                       compressedKey = ''0x'' @ compressedKeyHex
                   in case keccak256 compressedKey of
                        None \<Rightarrow> Inl (Error InvalidBytesLike None)
                      | Some h \<Rightarrow>
                          Inr \<lparr>keyHash = h, compressed = compressedKey,
                               coordinates = (xHex, yHex)\<rparr>)))"

section \<open>Ledger calls and their traces\<close>

text \<open>
  The sections that follow model the action of the task \<open>request-randomness\<close>
  (\<open>src/unnamed/part_004\<close>; the line numbers given are those of that file), step
  by step. The task \<open>request-randomness-2\<close> (\<open>src/unnamed/part_002\<close>) has the
  same steps 2, 4 and 5.

  A transaction is two awaits: the call itself (\<open>await contract.method(...)\<close>) and
  \<open>await tx.wait()\<close>. Either may throw; \<open>wait()\<close> of ethers v6 throws when the
  transaction reverted, so a resolved \<open>wait()\<close> is a successful transaction.
\<close>

datatype tx_outcome = SendThrows error | WaitThrows error | Mined

fun tx_error :: "tx_outcome \<Rightarrow> error option" where
  "tx_error (SendThrows e) = Some e"
| "tx_error (WaitThrows e) = Some e"
| "tx_error Mined = None"

datatype ledger_call =
    Approve
  | TransferAndCall string
  | AddConsumer int
  | CreateSubscription

text \<open>
  What a step did on the ledger, in order: \<open>Called c\<close> when the call was issued,
  \<open>Confirmed c\<close> when its \<open>wait()\<close> resolved.
\<close>

datatype event = Called ledger_call | Confirmed ledger_call

fun tx_trace :: "ledger_call \<Rightarrow> tx_outcome \<Rightarrow> event list" where
  "tx_trace c (SendThrows e) = [Called c]"
| "tx_trace c (WaitThrows e) = [Called c]"
| "tx_trace c Mined = [Called c, Confirmed c]"

section \<open>Step 4 of the task: adding the consumer\<close>

record add_consumer_env =
  addConsumer_first :: tx_outcome
  createSubscription_again :: tx_outcome
  addConsumer_retry :: tx_outcome

text \<open>\<open>if (error.data)\<close>: a missing field and the empty string are falsy.\<close>

definition truthy :: "string option \<Rightarrow> bool" where
  "truthy d = (case d of None \<Rightarrow> False | Some s \<Rightarrow> s \<noteq> [])"

text \<open>
  The table \<open>knownErrors\<close> of the catch block. The name it finds is only printed.
\<close>

definition knownErrors :: "string \<Rightarrow> string option" where
  "knownErrors sel =
     (if sel = ''0x1f6a65b6'' then Some ''NonExistentSubscription''
      else if sel = ''0x7aa5175d'' then Some ''InsufficientBalance''
      else if sel = ''0x756688fe'' then Some ''InvalidConsumer''
      else if sel = ''0x756e89cb'' then Some ''InvalidSubscription''
      else None)"

text \<open>
  The recovery of the catch block: create a subscription, then add the consumer again;
  whatever this throws is rethrown.
\<close>

definition recoverAddConsumer :: "add_consumer_env \<Rightarrow> int \<Rightarrow> event list \<times> (error + unit)" where
  "recoverAddConsumer env subId =
     (case tx_error (createSubscription_again env) of
        Some retryError \<Rightarrow>
          (tx_trace CreateSubscription (createSubscription_again env), Inl retryError)
      | None \<Rightarrow>
          (case tx_error (addConsumer_retry env) of
             Some retryError \<Rightarrow>
               (tx_trace CreateSubscription (createSubscription_again env)
                  @ tx_trace (AddConsumer subId) (addConsumer_retry env), Inl retryError)
           | None \<Rightarrow>
               (tx_trace CreateSubscription (createSubscription_again env)
                  @ tx_trace (AddConsumer subId) (addConsumer_retry env), Inr ())))"

text \<open>
  The try/catch around \<open>coordinator.addConsumer(subId, consumerAddress)\<close>, in the order
  of the source: inside \<open>if (error.data)\<close> the selector \<open>0x1f6a65b6\<close> throws a new
  error at once; the recovery branch comes after that block.
\<close>

definition addConsumerStep :: "add_consumer_env \<Rightarrow> int \<Rightarrow> event list \<times> (error + unit)" where
  "addConsumerStep env subId =
     (case tx_error (addConsumer_first env) of
        None \<Rightarrow> (tx_trace (AddConsumer subId) (addConsumer_first env), Inr ())
      | Some err \<Rightarrow>
          (let first = tx_trace (AddConsumer subId) (addConsumer_first env) in
           if truthy (error_data err) \<and> error_data err = Some ''0x1f6a65b6''
           then (first, Inl (Error (SubscriptionDoesNotExist subId) None))
           else if error_data err = Some ''0x1f6a65b6''
           then (first @ fst (recoverAddConsumer env subId), snd (recoverAddConsumer env subId))
           else (first, Inl err)))"

section \<open>Step 5 of the task: funding the subscription\<close>

text \<open>
  \<open>AbiCoder.encode(['uintN'], [v])\<close> of ethers: the 32-byte word of \<open>v\<close>, and the
  error \<open>value out-of-bounds\<close> when \<open>v\<close> is negative or does not fit \<open>N\<close> bits.
\<close>

definition abi_encode_uint :: "nat \<Rightarrow> int \<Rightarrow> string option" where
  "abi_encode_uint bits v = (if v < 0 \<or> 2 ^ bits \<le> v then None else Some (word_hex v))"

text \<open>
  The encoding of the subscription id, with the widths it tried, in order: the
  \<open>uint64\<close> attempt sits in a \<open>try\<close>, the \<open>uint256\<close> attempt in its \<open>catch\<close>.
\<close>

definition encodeSubId :: "int \<Rightarrow> nat list \<times> (error + string)" where
  "encodeSubId subId =
     (case abi_encode_uint 64 subId of
        Some encodedSubId \<Rightarrow> ([64], Inr encodedSubId)
      | None \<Rightarrow>
          (case abi_encode_uint 256 subId of
             Some encodedSubId \<Rightarrow> ([64, 256], Inr encodedSubId)
           | None \<Rightarrow> ([64, 256], Inl (Error ValueOutOfBounds None))))"

record funding_env =
  approve :: tx_outcome
  transferAndCall :: "string \<Rightarrow> tx_outcome"

definition fundSubscription :: "funding_env \<Rightarrow> int \<Rightarrow> event list \<times> (error + unit)" where
  "fundSubscription env subId =
     (case tx_error (approve env) of
        Some e \<Rightarrow> (tx_trace Approve (approve env), Inl e)
      | None \<Rightarrow>
          (case snd (encodeSubId subId) of
             Inl e \<Rightarrow> (tx_trace Approve (approve env), Inl e)
           | Inr encodedSubId \<Rightarrow>
               (let fundTx = transferAndCall env encodedSubId;
                    trace = tx_trace Approve (approve env)
                              @ tx_trace (TransferAndCall encodedSubId) fundTx
                in case tx_error fundTx of
                     Some e \<Rightarrow> (trace, Inl e)
                   | None \<Rightarrow> (trace, Inr ()))))"

section \<open>Step 6 of the task: submitting the request\<close>

record log_entry =
  address :: string
  topics :: "string list"
  data :: string

text \<open>\<open>xs[i]\<close> of JavaScript: \<open>undefined\<close> (here \<open>None\<close>) out of range.\<close>

definition at_index :: "'a list \<Rightarrow> nat \<Rightarrow> 'a option" where
  "at_index xs i = (if i < length xs then Some (xs ! i) else None)"

definition RandomWordsRequested :: string where
  "RandomWordsRequested = ''0x63373d1c4696214b898952999c9aaec57dac1ee2723cec59bea6888f489a9772''"

text \<open>
  The loop over the logs of the request receipt: for a log of the coordinator whose
  \<open>topics[0]\<close> is the \<open>RandomWordsRequested\<close> topic, \<open>topics[1]\<close> is printed as
  \<open>Request ID from event\<close>. The result is the list of the values printed.
\<close>

definition eventRequestIds :: "string \<Rightarrow> log_entry list \<Rightarrow> string option list" where
  "eventRequestIds coordinatorAddress logs =
     map (\<lambda>log. at_index (topics log) 1)
       (filter (\<lambda>log. toLowerCase (address log) = toLowerCase coordinatorAddress
                       \<and> at_index (topics log) 0 = Some RandomWordsRequested) logs)"

record request_env =
  requestRandomness :: tx_outcome
  s_requestId :: "error + int"
  getTransactionReceipt :: "error + log_entry list option"

record submitted =
  requestId :: int
  printedEventIds :: "string option list"

text \<open>
  \<open>consumer.requestRandomness(...)\<close>, \<open>requestTx.wait()\<close>, then
  \<open>requestId = await consumer.s_requestId()\<close>. The gas estimate and the whole block
  \<open>CHECKING EVENTS FROM REQUEST TX\<close> sit in \<open>try\<close>/\<open>catch\<close> and only print; of
  what they print the model keeps the request ids read from the receipt.
\<close>

definition submitRequest :: "request_env \<Rightarrow> string \<Rightarrow> error + submitted" where
  "submitRequest env coordinatorAddress =
     (case tx_error (requestRandomness env) of
        Some e \<Rightarrow> Inl e
      | None \<Rightarrow>
          (case s_requestId env of
             Inl e \<Rightarrow> Inl e
           | Inr rid \<Rightarrow>
               Inr \<lparr>requestId = rid,
                    printedEventIds =
                      (case getTransactionReceipt env of
                         Inr (Some logs) \<Rightarrow> eventRequestIds coordinatorAddress logs
                       | _ \<Rightarrow> [])\<rparr>))"

section \<open>Step 7 of the task: waiting for fulfillment\<close>

text \<open>
  What the ledger answers during one tick of the wait loop; \<open>None\<close> is a call that
  throws. The reads are \<open>eth_getStorageAt\<close> of the consumer's slot 1
  (\<open>s_requestId\<close>), slot 0 (the length of \<open>s_randomWords\<close>), slot
  \<open>keccak256(0)\<close> (its first element) and slot 3 (\<open>s_gasAvailable\<close>), then
  \<open>eth_blockNumber\<close> and \<open>eth_getLogs\<close> for the \<open>RandomWordsFulfilled\<close> topic.
\<close>

record tick_obs =
  slot1 :: "string option"
  slot0 :: "string option"
  firstWord :: "string option"
  slot3 :: "string option"
  blockNumber :: "string option"
  getLogs :: "log_entry list option"

definition ZERO_WORD :: string where
  "ZERO_WORD = ''0x0000000000000000000000000000000000000000000000000000000000000000''"

text \<open>What a successful tick printed before it returned.\<close>

datatype report =
    RandomWord int
  | FulfilledEvent "(int \<times> int list) option"
  | GasAvailableOnly

datatype tick_result = Return report | StillWaiting

text \<open>
  The part of the tick after the array check. \<open>requestId\<close> is the \<open>uint256\<close> read
  in step 6, so \<open>"0x" + requestId.toString(16).padStart(64, '0')\<close> is its 32-byte
  word. \<open>decode\<close> is \<open>abiCoder.decode(['uint256', 'uint256[]'], log.data)\<close>, a
  library function; \<open>None\<close> when it throws, which the inner \<open>catch\<close> only prints.
\<close>

definition checkGasAvailable ::
  "(string \<Rightarrow> (int \<times> int list) option) \<Rightarrow> int \<Rightarrow> tick_obs \<Rightarrow> error + tick_result" where
  "checkGasAvailable decode rid obs =
     (case slot3 obs of
        None \<Rightarrow> Inl (Error TransportFailure None)
      | Some gasAvailableHex \<Rightarrow>
          if positive (parseInt16 gasAvailableHex) then
            (case blockNumber obs of
               None \<Rightarrow> Inl (Error TransportFailure None)
             | Some currentBlock \<Rightarrow>
                 (case getLogs obs of
                    None \<Rightarrow> Inl (Error TransportFailure None)
                  | Some fulfillmentLogs \<Rightarrow>
                      (case find (\<lambda>log. 1 < length (topics log)
                                         \<and> topics log ! 1 = word_hex rid) fulfillmentLogs of
                         Some log \<Rightarrow> Inr (Return (FulfilledEvent (decode (data log))))
                       | None \<Rightarrow> Inr (Return GasAvailableOnly))))
          else Inr StillWaiting)"

text \<open>The body of the \<open>try\<close> of one tick.\<close>

definition checkFulfillment ::
  "(string \<Rightarrow> (int \<times> int list) option) \<Rightarrow> int \<Rightarrow> tick_obs \<Rightarrow> error + tick_result" where
  "checkFulfillment decode rid obs =
     (case slot1 obs of
        None \<Rightarrow> Inl (Error TransportFailure None)
      | Some storedRequestIdHex \<Rightarrow>
          (case BigInt storedRequestIdHex of
             None \<Rightarrow> Inl (Error SyntaxError None)
           | Some currentRequestId \<Rightarrow>
               (case slot0 obs of
                  None \<Rightarrow> Inl (Error TransportFailure None)
                | Some randomWordsLengthHex \<Rightarrow>
                    if positive (parseInt16 randomWordsLengthHex) then
                      (case firstWord obs of
                         None \<Rightarrow> Inl (Error TransportFailure None)
                       | Some randomWordHex \<Rightarrow>
                           if randomWordHex \<noteq> [] \<and> randomWordHex \<noteq> ZERO_WORD then
                             (case BigInt randomWordHex of
                                None \<Rightarrow> Inl (Error SyntaxError None)
                              | Some randomWord \<Rightarrow> Inr (Return (RandomWord randomWord)))
                           else checkGasAvailable decode rid obs)
                    else checkGasAvailable decode rid obs)))"

definition waitInterval :: int where
  "waitInterval = 5000"

definition timeout :: int where
  "timeout = 300000"

datatype watch_outcome = Fulfilled report | TimedOut

text \<open>
  Lines 861 to 993: the loop \<open>while (elapsed < timeout)\<close>. \<open>obs n\<close> is what the ledger answers in
  iteration \<open>n\<close> (counted from 0); the count of iterations \<open>n\<close> is not a variable of
  the source, it is carried along to index the answers and is returned with the final
  \<open>elapsed\<close>. A tick whose \<open>try\<close> body throws goes to the \<open>catch\<close>, which prints
  and lets the loop go on.
\<close>

function waitLoop ::
  "(string \<Rightarrow> (int \<times> int list) option) \<Rightarrow> int \<Rightarrow> (nat \<Rightarrow> tick_obs) \<Rightarrow> int \<Rightarrow> nat
     \<Rightarrow> watch_outcome \<times> int \<times> nat" where
  "waitLoop decode rid obs elapsed n =
     (if elapsed < timeout then
        (case checkFulfillment decode rid (obs n) of
           Inr (Return r) \<Rightarrow> (Fulfilled r, elapsed + waitInterval, Suc n)
         | Inr StillWaiting \<Rightarrow> waitLoop decode rid obs (elapsed + waitInterval) (Suc n)
         | Inl e \<Rightarrow> waitLoop decode rid obs (elapsed + waitInterval) (Suc n))
      else (TimedOut, elapsed, n))"
  by pat_completeness auto
termination
  by (relation "measure (\<lambda>(decode, rid, obs, elapsed, n). nat (timeout - elapsed))")
     (auto simp: waitInterval_def timeout_def)

declare waitLoop.simps [simp del]

definition waitForFulfillment ::
  "(string \<Rightarrow> (int \<times> int list) option) \<Rightarrow> int \<Rightarrow> (nat \<Rightarrow> tick_obs)
     \<Rightarrow> watch_outcome \<times> int \<times> nat" where
  "waitForFulfillment decode rid obs = waitLoop decode rid obs 0 0"

section \<open>Step 2 of the task: finding the subscription\<close>

text \<open>
  What \<open>coordinator.getSubscription(id)\<close> returns; the balances and the consumer list
  are only printed.
\<close>

record subscription =
  subOwner :: string
  reqCount :: int

text \<open>
  The coordinator as the discovery sees it. \<open>None\<close> is a call that throws (a
  subscription that does not exist, a method the contract does not have). The reads
  before \<open>createSubscription\<close> have their own fields; all reads after it see one
  ledger state, so a read repeated by a later strategy gives the same answer.
  \<open>decodeAddress\<close> tells whether \<open>abiCoder.decode(['address'], log.data)\<close> of the
  library succeeds.
\<close>

record coordinator_env =
  signerAddress :: string
  coordinatorAddress :: string
  activeIdsBefore :: "int list option"
  getSubscriptionBefore :: "int \<Rightarrow> subscription option"
  createSubscription :: "error + log_entry list option"
  activeIdsAfter :: "int list option"
  getSubscription :: "int \<Rightarrow> subscription option"
  decodeAddress :: "string \<Rightarrow> bool"

text \<open>
  \<open>existingSubscriptionIds\<close> holds bigints when \<open>getActiveSubscriptionIds\<close> answered
  and numbers when it was filled by the manual check of the ids 1 to 20;
  \<open>Array.includes\<close> never takes a number for a bigint.
\<close>

datatype js_id = Num int | Big int

definition existingSubscriptionIds :: "coordinator_env \<Rightarrow> js_id list" where
  "existingSubscriptionIds env =
     (case activeIdsBefore env of
        Some ids \<Rightarrow> map Big ids
      | None \<Rightarrow> map Num (filter (\<lambda>i. getSubscriptionBefore env i \<noteq> None) [1..20]))"

text \<open>\<open>if (!subId)\<close> for \<open>subId: bigint | undefined\<close>: true for \<open>undefined\<close> and \<open>0n\<close>.\<close>

definition falsy :: "int option \<Rightarrow> bool" where
  "falsy subId = (subId = None \<or> subId = Some 0)"

text \<open>\<open>sub.subOwner && sub.subOwner.toLowerCase() === signerAddress.toLowerCase()\<close>\<close>

definition ownerIs :: "string \<Rightarrow> subscription \<Rightarrow> bool" where
  "ownerIs signer sub = (subOwner sub \<noteq> [] \<and> toLowerCase (subOwner sub) = toLowerCase signer)"

text \<open>The test of a probing loop: the read succeeds and the owner is the signer.\<close>

definition ownedBySigner :: "coordinator_env \<Rightarrow> int \<Rightarrow> bool" where
  "ownedBySigner env i =
     (case getSubscription env i of
        None \<Rightarrow> False
      | Some sub \<Rightarrow> ownerIs (signerAddress env) sub)"

text \<open>The test of the loop over 1 to 100: the owner is the signer and \<open>reqCount === 0n\<close>.\<close>

definition ownedAndFresh :: "coordinator_env \<Rightarrow> int \<Rightarrow> bool" where
  "ownedAndFresh env i =
     (case getSubscription env i of
        None \<Rightarrow> False
      | Some sub \<Rightarrow> ownerIs (signerAddress env) sub \<and> reqCount sub = 0)"

text \<open>
  A probing loop \<open>for (...) { try { if (test) { subId = id; break } } catch {} }\<close>: the
  first id that passes, else \<open>subId\<close> as it was.
\<close>

definition probe :: "(int \<Rightarrow> bool) \<Rightarrow> int list \<Rightarrow> int option \<Rightarrow> int option" where
  "probe test ids subId = (case find test ids of Some i \<Rightarrow> Some i | None \<Rightarrow> subId)"

text \<open>Lines 79 to 105: the ids that are active after the creation and were not before.\<close>

definition eventDiff :: "coordinator_env \<Rightarrow> int option" where
  "eventDiff env =
     (case activeIdsAfter env of
        None \<Rightarrow> None
      | Some newSubscriptionIds \<Rightarrow>
          probe (ownedBySigner env)
            (filter (\<lambda>id. Big id \<notin> set (existingSubscriptionIds env)) newSubscriptionIds)
            None)"

text \<open>
  Lines 114 to 198, for a receipt with one log of two topics: all active ids by owner,
  then the ids 1 to 100 by owner and request count.
\<close>

definition directCheck :: "coordinator_env \<Rightarrow> log_entry list \<Rightarrow> int option \<Rightarrow> int option" where
  "directCheck env logs subId =
     (if length logs = 1 \<and> length (topics (logs ! 0)) = 2 then
        (let subId1 = (case activeIdsAfter env of
                         None \<Rightarrow> subId
                       | Some activeIds \<Rightarrow> probe (ownedBySigner env) activeIds subId)
         in if falsy subId1 then probe (ownedAndFresh env) [1..100] subId1 else subId1)
      else subId)"

text \<open>
  Lines 216 to 255, for one log: the first word of the data of a coordinator log, taken
  as an id when it lies between 1 and 999999 and the subscription it names is the
  signer's. Every exception is caught inside.
\<close>

definition hexExtract :: "coordinator_env \<Rightarrow> int option \<Rightarrow> log_entry \<Rightarrow> int option" where
  "hexExtract env subId log =
     (if toLowerCase (address log) = toLowerCase (coordinatorAddress env)
         \<and> 66 \<le> length (data log) then
        (case BigInt (''0x'' @ slice (data log) 2 66) of
           None \<Rightarrow> subId
         | Some possibleId \<Rightarrow>
             if 0 < possibleId \<and> possibleId < 1000000 then
               (case getSubscription env possibleId of
                  None \<Rightarrow> subId
                | Some sub \<Rightarrow>
                    if toLowerCase (subOwner sub) = toLowerCase (signerAddress env)
                    then Some possibleId else subId)
             else subId)
      else subId)"

text \<open>Lines 396 to 411: the binary search for the highest existing id up to 1000.\<close>

function binarySearch :: "coordinator_env \<Rightarrow> int \<Rightarrow> int \<Rightarrow> int \<Rightarrow> int" where
  "binarySearch env left right maxExistingId =
     (if left \<le> right then
        (let mid = (left + right) div 2 in
         if getSubscription env mid \<noteq> None
         then binarySearch env (mid + 1) right (max maxExistingId mid)
         else binarySearch env left (mid - 1) maxExistingId)
      else maxExistingId)"
  by pat_completeness auto
termination
  by (relation "measure (\<lambda>(env, left, right, maxExistingId). nat (right - left + 1))") auto

declare binarySearch.simps [simp del]

text \<open>
  Lines 347 to 437: the ids 1 to 10, then 11 to 30, then the six ids at and below the
  highest existing one, each by owner alone.
\<close>

definition coordinatorQueries :: "coordinator_env \<Rightarrow> int option \<Rightarrow> int option" where
  "coordinatorQueries env subId =
     (case find (ownedBySigner env) [1..10] of
        Some i \<Rightarrow> Some i
      | None \<Rightarrow>
          (case find (ownedBySigner env) [11..30] of
             Some i \<Rightarrow> Some i
           | None \<Rightarrow>
               (let maxExistingId = binarySearch env 1 1000 0 in
                if 0 < maxExistingId
                then probe (ownedBySigner env)
                       (rev [max 1 (maxExistingId - 5)..maxExistingId]) subId
                else subId)))"

definition knownSubscriptionCreatedTopics :: "string list" where
  "knownSubscriptionCreatedTopics =
     [''0x464722b4166576d3dcbba877b999bc35cf911f4eaf1b6cb7c3512044693085d3'',
      ''0x1d3015d7ba850fa198dc7b1a3f5d42779313a681035f77c8c03764c61005518d'']"

text \<open>
  Lines 268 to 446: the loop over the logs of the receipt. \<open>log.topics[0].toLowerCase()\<close>
  and \<open>BigInt(log.topics[1])\<close> are outside every inner \<open>try\<close>: on a log without
  topics, or a v2 log without a second topic, the task fails with a \<open>TypeError\<close>. A
  result \<open>Inr subId\<close> is the value of \<open>subId\<close> when the loop is left.
\<close>

fun topicScan :: "coordinator_env \<Rightarrow> log_entry list \<Rightarrow> int option \<Rightarrow> error + int option" where
  "topicScan env [] subId = Inr subId"
| "topicScan env (log # rest) subId =
     (case topics log of
        [] \<Rightarrow> Inl (Error TypeError None)
      | t0 # ts \<Rightarrow>
          (let topicHex = toLowerCase t0 in
           if topicHex \<in> set knownSubscriptionCreatedTopics then
             (if topicHex = toLowerCase (knownSubscriptionCreatedTopics ! 0) then
                (case ts of
                   [] \<Rightarrow> Inl (Error TypeError None)
                 | t1 # ts' \<Rightarrow>
                     (case BigInt t1 of
                        None \<Rightarrow> Inl (Error SyntaxError None)
                      | Some v \<Rightarrow>
                          if \<not> falsy (Some v) then Inr (Some v)
                          else topicScan env rest (Some v)))
              else if topicHex = toLowerCase (knownSubscriptionCreatedTopics ! 1) then
                (let subId1 = probe (ownedBySigner env) [1..20] subId in
                 if \<not> falsy subId1 then Inr subId1
                 else
                   (let subId2 = (if decodeAddress env (data log)
                                  then coordinatorQueries env subId1 else subId1)
                    in if \<not> falsy subId2 then Inr subId2
                       else topicScan env rest subId2))
              else (if \<not> falsy subId then Inr subId else topicScan env rest subId))
           else topicScan env rest subId))"

text \<open>
  Lines 452 to 529: subscription 1, then 2 to 5, by owner; at last id 1 unchecked when
  the read of subscription 1 threw, and an error when subscription 1 exists.
\<close>

definition lastResort :: "coordinator_env \<Rightarrow> int option \<Rightarrow> error + int" where
  "lastResort env subId =
     (let firstSubExists = (getSubscription env 1 \<noteq> None);
          subId1 = (if ownedBySigner env 1 then Some 1 else subId);
          subId2 = (if falsy subId1 then probe (ownedBySigner env) [2..5] subId1 else subId1)
      in case subId2 of
           None \<Rightarrow> (if \<not> firstSubExists then Inr 1 else Inl (Error NoUsableSubscription None))
         | Some i \<Rightarrow>
             if i = 0
             then (if \<not> firstSubExists then Inr 1 else Inl (Error NoUsableSubscription None))
             else Inr i)"

text \<open>
  Lines 64 to 529: \<open>createSubscription\<close>, then the strategies in turn, each guarded by
  \<open>if (!subId)\<close> as in the source. The result is the \<open>subId\<close> the later steps use.
\<close>

definition resolveSubscription :: "coordinator_env \<Rightarrow> error + int" where
  "resolveSubscription env =
     (case createSubscription env of
        Inl e \<Rightarrow> Inl e
      | Inr None \<Rightarrow> Inl (Error TransactionFailed None)
      | Inr (Some logs) \<Rightarrow>
          (let subId0 = eventDiff env in
           case (if falsy subId0 then
                   (let subId1 = directCheck env logs subId0 in
                    if falsy subId1
                    then topicScan env logs (foldl (hexExtract env) subId1 logs)
                    else Inr subId1)
                 else Inr subId0) of
             Inl e \<Rightarrow> Inl e
           | Inr subId \<Rightarrow> (if falsy subId then lastResort env subId else
                            (case subId of Some i \<Rightarrow> Inr i
                             | None \<Rightarrow> lastResort env subId))))"

section \<open>Properties the claims speak of\<close>

text \<open>
  The id names a subscription that exists and whose owner is the signer, compared as
  the source compares addresses.
\<close>

definition ownerVerified :: "coordinator_env \<Rightarrow> int \<Rightarrow> bool" where
  "ownerVerified env i =
     (case getSubscription env i of
        None \<Rightarrow> False
      | Some sub \<Rightarrow> toLowerCase (subOwner sub) = toLowerCase (signerAddress env))"



text \<open>
  Fulfillment evidence of one tick, said of what the reads return. The request id in
  slot 1 was read and is a number.
\<close>

definition requestIdRead :: "tick_obs \<Rightarrow> bool" where
  "requestIdRead ob = (case slot1 ob of None \<Rightarrow> False | Some s1 \<Rightarrow> BigInt s1 \<noteq> None)"

text \<open>
  A stored word: the length in slot 0 is positive, and the first element was read as a
  string that is not empty, is not the zero word of 66 characters, and is a number.
\<close>

definition wordEvidence :: "tick_obs \<Rightarrow> bool" where
  "wordEvidence ob =
     (case slot0 ob of
        None \<Rightarrow> False
      | Some s0 \<Rightarrow>
          positive (parseInt16 s0)
          \<and> (case firstWord ob of
                None \<Rightarrow> False
              | Some w \<Rightarrow> w \<noteq> [] \<and> w \<noteq> ZERO_WORD \<and> BigInt w \<noteq> None))"

text \<open>
  No stored word: slot 0 was read and its length is not positive, or the first element
  was read as the empty string or as the zero word of 66 characters.
\<close>

definition noWordStored :: "tick_obs \<Rightarrow> bool" where
  "noWordStored ob =
     (case slot0 ob of
        None \<Rightarrow> False
      | Some s0 \<Rightarrow>
          \<not> positive (parseInt16 s0)
          \<or> (case firstWord ob of
                None \<Rightarrow> False
              | Some w \<Rightarrow> w = [] \<or> w = ZERO_WORD))"

text \<open>
  The gas marker: slot 3 was read and is positive, and the block number and the logs
  were read after it.
\<close>

definition gasEvidence :: "tick_obs \<Rightarrow> bool" where
  "gasEvidence ob =
     (case slot3 ob of
        None \<Rightarrow> False
      | Some g \<Rightarrow> positive (parseInt16 g) \<and> blockNumber ob \<noteq> None \<and> getLogs ob \<noteq> None)"

definition evidence :: "tick_obs \<Rightarrow> bool" where
  "evidence ob = (requestIdRead ob \<and> (wordEvidence ob \<or> (noWordStored ob \<and> gasEvidence ob)))"


section \<open>Example runs\<close>


text \<open>
  The signer owns subscription 25, which has served five requests. The creation makes
  subscription 101 for the signer; its receipt has the one v2.5 log, with a hash as
  second topic and the owner as data. \<open>getActiveSubscriptionIds\<close> is not available.
\<close>

definition usedSubscription :: subscription where
  "usedSubscription =
     \<lparr>subOwner = ''0xf39Fd6e51aad88F6F4ce6aB8827279cffFb92266'', reqCount = 5\<rparr>"

definition newSubscription :: subscription where
  "newSubscription =
     \<lparr>subOwner = ''0xf39Fd6e51aad88F6F4ce6aB8827279cffFb92266'', reqCount = 0\<rparr>"

definition oldSubscriptionExample :: coordinator_env where
  "oldSubscriptionExample =
     \<lparr>signerAddress = ''0xf39Fd6e51aad88F6F4ce6aB8827279cffFb92266'',
      coordinatorAddress = ''0x5FbDB2315678afecb367f032d93F642f64180aa3'',
      activeIdsBefore = None,
      getSubscriptionBefore = (\<lambda>i. None),
      createSubscription =
        Inr (Some [\<lparr>address = ''0x5FbDB2315678afecb367f032d93F642f64180aa3'',
                    topics = [''0x1d3015d7ba850fa198dc7b1a3f5d42779313a681035f77c8c03764c61005518d'',
                              ''0x8d1b8a4b2c1f3e5d7a9b0c2e4f6a8b0d2c4e6f8a0b1c3d5e7f9a1b3c5d7e9f10''],
                    data = ''0x000000000000000000000000f39fd6e51aad88f6f4ce6ab8827279cfffb92266''\<rparr>]),
      activeIdsAfter = None,
      getSubscription = (\<lambda>i. if i = 25 then Some usedSubscription
                              else if i = 101 then Some newSubscription else None),
      decodeAddress = (\<lambda>d. True)\<rparr>"

text \<open>
  The creation receipt holds a v2 \<open>SubscriptionCreated\<close> log whose second topic is 5,
  and subscription 5 belongs to another address.
\<close>

definition foreignSubscription :: subscription where
  "foreignSubscription =
     \<lparr>subOwner = ''0x70997970C51812dc3A010C7d01b50e0d17dc79C8'', reqCount = 0\<rparr>"

definition v2LogExample :: coordinator_env where
  "v2LogExample =
     \<lparr>signerAddress = ''0xf39Fd6e51aad88F6F4ce6aB8827279cffFb92266'',
      coordinatorAddress = ''0x5FbDB2315678afecb367f032d93F642f64180aa3'',
      activeIdsBefore = None,
      getSubscriptionBefore = (\<lambda>i. None),
      createSubscription =
        Inr (Some [\<lparr>address = ''0x5FbDB2315678afecb367f032d93F642f64180aa3'',
                    topics = [''0x464722b4166576d3dcbba877b999bc35cf911f4eaf1b6cb7c3512044693085d3'',
                              ''0x0000000000000000000000000000000000000000000000000000000000000005''],
                    data = ''0x00000000000000000000000070997970c51812dc3a010c7d01b50e0d17dc79c8''\<rparr>]),
      activeIdsAfter = None,
      getSubscription = (\<lambda>i. if i = 5 then Some foreignSubscription else None),
      decodeAddress = (\<lambda>d. True)\<rparr>"

text \<open>Approval and transfer both mined.\<close>

definition fundingExample :: funding_env where
  "fundingExample = \<lparr>approve = Mined, transferAndCall = (\<lambda>encodedSubId. Mined)\<rparr>"

text \<open>
  The consumer answers \<open>s_requestId() = 7\<close>; the receipt of the request holds a
  \<open>RandomWordsRequested\<close> log of the coordinator whose second topic is 9.
\<close>

definition requestExample :: request_env where
  "requestExample =
     \<lparr>requestRandomness = Mined,
      s_requestId = Inr 7,
      getTransactionReceipt =
        Inr (Some [\<lparr>address = ''0x5FbDB2315678afecb367f032d93F642f64180aa3'',
                    topics = [''0x63373d1c4696214b898952999c9aaec57dac1ee2723cec59bea6888f489a9772'',
                              ''0x0000000000000000000000000000000000000000000000000000000000000009''],
                    data = ''0x''\<rparr>])\<rparr>"


text \<open>A tick in which every call throws.\<close>

definition throwingObs :: tick_obs where
  "throwingObs = \<lparr>slot1 = None, slot0 = None, firstWord = None, slot3 = None,
                   blockNumber = None, getLogs = None\<rparr>"


text \<open>
  A tick in which \<open>s_gasAvailable\<close> is set and the query for the logs throws.
\<close>

definition gasThenThrowObs :: tick_obs where
  "gasThenThrowObs =
     \<lparr>slot1 = Some ''0x0000000000000000000000000000000000000000000000000000000000000007'',
      slot0 = Some ''0x0000000000000000000000000000000000000000000000000000000000000000'',
      firstWord = Some ''0x0000000000000000000000000000000000000000000000000000000000000000'',
      slot3 = Some ''0x00000000000000000000000000000000000000000000000000000000000186a0'',
      blockNumber = Some ''0x10'',
      getLogs = None\<rparr>"


text \<open>
  A tick in which the array length is 1 and the node returns the first element, which
  is zero, as the short string \<open>0x0\<close>; \<open>s_gasAvailable\<close> is zero.
\<close>

definition unpaddedZeroObs :: tick_obs where
  "unpaddedZeroObs =
     \<lparr>slot1 = Some ''0x0000000000000000000000000000000000000000000000000000000000000007'',
      slot0 = Some ''0x0000000000000000000000000000000000000000000000000000000000000001'',
      firstWord = Some ''0x0'',
      slot3 = Some ''0x0000000000000000000000000000000000000000000000000000000000000000'',
      blockNumber = Some ''0x10'',
      getLogs = Some []\<rparr>"


definition throwingRun :: "nat \<Rightarrow> tick_obs" where
  "throwingRun n = throwingObs"

definition decodeNothing :: "string \<Rightarrow> (int \<times> int list) option" where
  "decodeNothing d = None"

text \<open>
  A key given as \<open>x + y\<close> without the format byte, whose \<open>x\<close> coordinate begins with
  the byte 04, and its two coordinates.
\<close>

definition xCoordinate :: string where
  "xCoordinate = ''0411111111111111111111111111111111111111111111111111111111111111''"

definition yCoordinate :: string where
  "yCoordinate = ''2222222222222222222222222222222222222222222222222222222222222223''"

section \<open>Proving keys\<close>

text \<open>
  With the format byte 04 in front, and without it when \<open>x\<close> does not begin with
  04, the function returns the coordinates of the input and the compressed key.
\<close>

lemma BigInt_0x: "s \<noteq> [] \<Longrightarrow> BigInt (CHR ''0'' # CHR ''x'' # s) = hex_value 0 s"
  by (simp add: BigInt_def startsWith_def)

lemma encodeOnChainVRFProvingKey_with_format_byte:
  assumes "length x = 64" and "length y = 64"
    and "hex_value 0 x = Some xv" and "hex_value 0 y = Some yv"
    and "keccak256 (''0x'' @ (if yv mod 2 = 0 then ''02'' else ''03'') @ x) = Some h"
  shows "encodeOnChainVRFProvingKey keccak256 (''0x04'' @ x @ y)
           = Inr \<lparr>keyHash = h,
                  compressed = ''0x'' @ (if yv mod 2 = 0 then ''02'' else ''03'') @ x,
                  coordinates = (''0x'' @ x, ''0x'' @ y)\<rparr>"
proof -
  have x: "x \<noteq> []" and y: "y \<noteq> []" using assms(1,2) by auto
  have sx: "slice (''04'' @ x @ y) 2 66 = x"
    using assms(1) by (simp add: slice_def)
  have sy: "slice (''04'' @ x @ y) 66 130 = y"
    using assms(1,2) by (simp add: slice_def)
  show ?thesis
    using assms(3-5) x y sx sy
    by (simp add: encodeOnChainVRFProvingKey_def startsWith_def BigInt_0x Let_def)
qed

lemma encodeOnChainVRFProvingKey_without_format_byte:
  assumes "length x = 64" and "length y = 64"
    and "\<not> startsWith x ''04''"
    and "hex_value 0 x = Some xv" and "hex_value 0 y = Some yv"
    and "keccak256 (''0x'' @ (if yv mod 2 = 0 then ''02'' else ''03'') @ x) = Some h"
  shows "encodeOnChainVRFProvingKey keccak256 (x @ y)
           = Inr \<lparr>keyHash = h,
                  compressed = ''0x'' @ (if yv mod 2 = 0 then ''02'' else ''03'') @ x,
                  coordinates = (''0x'' @ x, ''0x'' @ y)\<rparr>"
proof -
  have x: "x \<noteq> []" and y: "y \<noteq> []" using assms(1,2) by auto
  have nox: "\<not> startsWith (x @ y) ''0x''"
  proof
    assume "startsWith (x @ y) ''0x''"
    then have "take 2 x = ''0x''" using assms(1) by (simp add: startsWith_def numeral_2_eq_2)
    then have "x = ''0x'' @ drop 2 x" by (metis append_take_drop_id)
    then have "hex_value 0 x = hex_value 0 (''0x'' @ drop 2 x)" by simp
    then show False using assms(4) by (simp add: hex_digit_def)
  qed
  have no04: "\<not> startsWith (x @ y) ''04''"
    using assms(1,3) by (simp add: startsWith_def)
  have sx: "slice (''04'' @ x @ y) 2 66 = x"
    using assms(1) by (simp add: slice_def)
  have sy: "slice (''04'' @ x @ y) 66 130 = y"
    using assms(1,2) by (simp add: slice_def)
  show ?thesis
    using assms(4-6) x y sx sy nox no04
    by (simp add: encodeOnChainVRFProvingKey_def BigInt_0x Let_def)
qed

text \<open>
  Claim C10. For every uncompressed key, with or without \<open>0x\<close> and with or without
  the leading byte 04, \<open>encodeOnChainVRFProvingKey\<close> returns the prefix 02 or 03 by the
  parity of \<open>y\<close> followed by \<open>x\<close>, the coordinates \<open>x\<close> and \<open>y\<close> of the input,
  and the hash of the compressed key. The function tells a key without the format
  byte by its first two characters, so a key \<open>x + y\<close> whose \<open>x\<close> begins with 04 is
  read as if the format byte were there: the \<open>x\<close> returned is \<open>x\<close> without its first
  byte followed by the first byte of \<open>y\<close>, and the \<open>y\<close> returned has lost its first
  byte.
\<close>

theorem encodeOnChainVRFProvingKey_misreads_x_beginning_with_04:
  "encodeOnChainVRFProvingKey keccak256 (xCoordinate @ yCoordinate)
     = (case keccak256 ''0x031111111111111111111111111111111111111111111111111111111111111122'' of
          None \<Rightarrow> Inl (Error InvalidBytesLike None)
        | Some h \<Rightarrow>
            Inr \<lparr>keyHash = h,
                 compressed = ''0x031111111111111111111111111111111111111111111111111111111111111122'',
                 coordinates = (''0x1111111111111111111111111111111111111111111111111111111111111122'',
                                ''0x22222222222222222222222222222222222222222222222222222222222223'')\<rparr>)"
  unfolding xCoordinate_def yCoordinate_def by code_simp

section \<open>Adding the consumer\<close>

text \<open>The recovery branch is never entered: no run of the step creates a subscription.\<close>

lemma addConsumerStep_never_creates:
  "Called CreateSubscription \<notin> set (fst (addConsumerStep env subId))"
  by (cases "addConsumer_first env") (auto simp: addConsumerStep_def truthy_def Let_def)

text \<open>
  Claim C3. When \<open>addConsumer\<close> reverts with the selector \<open>0x1f6a65b6\<close>
  (\<open>NonExistentSubscription\<close>), the system creates a subscription and retries
  \<open>addConsumer\<close> once, and fails only if the retry fails. In the code the selector is
  tested first inside \<open>if (error.data)\<close>, where it throws: the step ends with the
  error \<open>Subscription ... does not exist\<close> after the one \<open>addConsumer\<close> call,
  whatever the creation and the retry would have done.
\<close>

theorem addConsumer_NonExistentSubscription_no_recovery:
  "knownErrors ''0x1f6a65b6'' = Some ''NonExistentSubscription''
   \<and> addConsumerStep
         (env\<lparr>addConsumer_first := SendThrows (Error Reverted (Some ''0x1f6a65b6''))\<rparr>) subId
       = ([Called (AddConsumer subId)], Inl (Error (SubscriptionDoesNotExist subId) None))"
  by (simp add: addConsumerStep_def truthy_def knownErrors_def)

section \<open>Funding\<close>

text \<open>
  Claim C7. In every funding sequence the approval is sent and its receipt awaited
  with success before \<open>transferAndCall\<close> is attempted: a trace that holds a
  \<open>transferAndCall\<close> begins with the approval called and confirmed.
\<close>

theorem approve_confirmed_before_transferAndCall:
  "Called (TransferAndCall d) \<in> set (fst (fundSubscription env subId)) \<Longrightarrow>
   approve env = Mined
   \<and> (\<exists>rest. fst (fundSubscription env subId)
               = [Called Approve, Confirmed Approve, Called (TransferAndCall d)] @ rest)"
  by (cases "approve env"; cases "snd (encodeSubId subId)";
      cases "transferAndCall env (projr (snd (encodeSubId subId)))")
     (auto simp: fundSubscription_def Let_def split: sum.splits option.splits)

text \<open>The funding of subscription 1 when both transactions are mined.\<close>

theorem approve_confirmed_before_transferAndCall_witness:
  "approve fundingExample = Mined
   \<and> (\<exists>rest. fst (fundSubscription fundingExample 1)
               = [Called Approve, Confirmed Approve,
                  Called (TransferAndCall ''0x0000000000000000000000000000000000000000000000000000000000000001'')] @ rest)"
proof -
  have "Called (TransferAndCall ''0x0000000000000000000000000000000000000000000000000000000000000001'')
          \<in> set (fst (fundSubscription fundingExample 1))"
    unfolding fundingExample_def by code_simp
  then show ?thesis by (rule approve_confirmed_before_transferAndCall)
qed

text \<open>
  Claim C8, as stated: the encoder tries \<open>uint64\<close> first and falls back to
  \<open>uint256\<close>; the encoding step cannot fail at run time and the fallback is no error
  recovery. For the id \<open>2^64\<close> the \<open>uint64\<close> encoding throws, and the \<open>uint256\<close>
  encoding of the \<open>catch\<close> gives the result.
\<close>

theorem encodeSubId_uint64_throws:
  "abi_encode_uint 64 (2 ^ 64) = None
   \<and> encodeSubId (2 ^ 64) =
       ([64, 256], Inr ''0x0000000000000000000000000000000000000000000000010000000000000000'')"
  by code_simp

text \<open>
  Claim C8, amended. The encoder tries \<open>uint64\<close> first; when that encoding throws,
  which it does exactly for an id outside 64 bits, the \<open>catch\<close> encodes the id as
  \<open>uint256\<close>. For every id from 0 to \<open>2^256 - 1\<close> the step gives the 32-byte word of
  the id, by the first attempt when the id is below \<open>2^64\<close> and by the fallback
  otherwise.
\<close>

theorem encodeSubId_uint256_range:
  "0 \<le> subId \<Longrightarrow> subId < 2 ^ 256 \<Longrightarrow>
   encodeSubId subId = (if subId < 2 ^ 64 then [64] else [64, 256], Inr (word_hex subId))"
  by (simp add: encodeSubId_def abi_encode_uint_def)

theorem encodeSubId_uint256_range_witness:
  "(0::int) \<le> 2 ^ 64 \<and> (2::int) ^ 64 < 2 ^ 256
   \<and> encodeSubId (2 ^ 64) = ([64, 256], Inr (word_hex (2 ^ 64)))"
  using encodeSubId_uint256_range [of "2 ^ 64"] by simp

section \<open>Submitting the request\<close>

text \<open>
  Claim C2, as stated: when the direct read of \<open>s_requestId\<close> and the id of the
  \<open>RandomWordsRequested\<close> event of the receipt are both available and differ, the
  system raises \<open>RequestIdMismatch\<close> and returns neither. In the example the read
  gives 7 and the event 9: the step returns 7.
\<close>

theorem submitRequest_ignores_event_id:
  "submitRequest requestExample ''0x5FbDB2315678afecb367f032d93F642f64180aa3''
     = Inr \<lparr>requestId = 7,
            printedEventIds = [Some ''0x0000000000000000000000000000000000000000000000000000000000000009'']\<rparr>
   \<and> BigInt ''0x0000000000000000000000000000000000000000000000000000000000000009'' = Some 9"
  unfolding requestExample_def by code_simp

text \<open>
  Claim C2, amended. When the request transaction is mined and the direct read of
  \<open>s_requestId\<close> succeeds, the request id is the value read, whatever the receipt
  holds; the ids of the \<open>RandomWordsRequested\<close> events of the receipt are printed
  and compared with nothing.
\<close>

theorem submitRequest_returns_direct_read:
  "requestRandomness env = Mined \<Longrightarrow> s_requestId env = Inr rid \<Longrightarrow>
   submitRequest env coordinator
     = Inr \<lparr>requestId = rid,
            printedEventIds = (case getTransactionReceipt env of
                                 Inr (Some logs) \<Rightarrow> eventRequestIds coordinator logs
                               | _ \<Rightarrow> [])\<rparr>"
  by (simp add: submitRequest_def)

theorem submitRequest_returns_direct_read_witness:
  "requestRandomness requestExample = Mined \<and> s_requestId requestExample = Inr 7
   \<and> submitRequest requestExample ''0x5FbDB2315678afecb367f032d93F642f64180aa3''
     = Inr \<lparr>requestId = 7,
            printedEventIds = (case getTransactionReceipt requestExample of
                                 Inr (Some logs) \<Rightarrow> eventRequestIds ''0x5FbDB2315678afecb367f032d93F642f64180aa3'' logs
                               | _ \<Rightarrow> [])\<rparr>"
proof -
  have a: "requestRandomness requestExample = Mined" by (simp add: requestExample_def)
  have b: "s_requestId requestExample = Inr 7" by (simp add: requestExample_def)
  from a b submitRequest_returns_direct_read [OF a b] show ?thesis by blast
qed

section \<open>The wait loop\<close>

lemma waitLoop_unfold_continue:
  assumes "n < 60"
    and "\<forall>r. checkFulfillment decode rid (obs n) \<noteq> Inr (Return r)"
  shows "waitLoop decode rid obs (waitInterval * int n) n
           = waitLoop decode rid obs (waitInterval * int (Suc n)) (Suc n)"
proof -
  have lt: "waitInterval * int n < timeout"
    using assms(1) by (simp add: waitInterval_def timeout_def)
  have next_elapsed: "waitInterval * int n + waitInterval = waitInterval * int (Suc n)"
    by (simp add: algebra_simps)
  show ?thesis
  proof (cases "checkFulfillment decode rid (obs n)")
    case (Inl e)
    then show ?thesis
      using lt next_elapsed by (subst waitLoop.simps) simp
  next
    case (Inr t)
    with assms(2) have "t = StillWaiting" by (cases t) auto
    with Inr show ?thesis
      using lt next_elapsed by (subst waitLoop.simps) simp
  qed
qed

lemma waitLoop_unfold_return:
  assumes "n < 60"
    and "checkFulfillment decode rid (obs n) = Inr (Return r)"
  shows "waitLoop decode rid obs (waitInterval * int n) n
           = (Fulfilled r, waitInterval * int (Suc n), Suc n)"
proof -
  have lt: "waitInterval * int n < timeout"
    using assms(1) by (simp add: waitInterval_def timeout_def)
  have next_elapsed: "waitInterval * int n + waitInterval = waitInterval * int (Suc n)"
    by (simp add: algebra_simps)
  show ?thesis
    using lt next_elapsed assms(2) by (subst waitLoop.simps) simp
qed

lemma waitLoop_unfold_deadline:
  "waitLoop decode rid obs (waitInterval * 60) 60 = (TimedOut, 300000, 60)"
  by (subst waitLoop.simps) (simp add: waitInterval_def timeout_def)

lemma waitLoop_no_return:
  assumes "n \<le> 60"
    and "\<forall>m. n \<le> m \<and> m < 60 \<longrightarrow> (\<forall>r. checkFulfillment decode rid (obs m) \<noteq> Inr (Return r))"
  shows "waitLoop decode rid obs (waitInterval * int n) n = (TimedOut, 300000, 60)"
  using assms
proof (induction "60 - n" arbitrary: n)
  case 0
  then have "n = 60" by simp
  then show ?case using waitLoop_unfold_deadline by simp
next
  case (Suc k)
  then have lt: "n < 60" by simp
  have here: "\<forall>r. checkFulfillment decode rid (obs n) \<noteq> Inr (Return r)"
    using Suc.prems(2) lt by simp
  have "waitLoop decode rid obs (waitInterval * int n) n
          = waitLoop decode rid obs (waitInterval * int (Suc n)) (Suc n)"
    using lt here by (rule waitLoop_unfold_continue)
  also have "\<dots> = (TimedOut, 300000, 60)"
  proof (rule Suc.hyps(1))
    show "k = 60 - Suc n" using Suc.hyps(2) by simp
    show "Suc n \<le> 60" using lt by simp
    show "\<forall>m. Suc n \<le> m \<and> m < 60 \<longrightarrow> (\<forall>r. checkFulfillment decode rid (obs m) \<noteq> Inr (Return r))"
      using Suc.prems(2) by simp
  qed
  finally show ?case .
qed


lemma waitLoop_bounded:
  assumes "n \<le> 60"
  shows "\<exists>out n'. waitLoop decode rid obs (waitInterval * int n) n
                     = (out, waitInterval * int n', n') \<and> n \<le> n' \<and> n' \<le> 60"
  using assms
proof (induction "60 - n" arbitrary: n)
  case 0
  then have "n = 60" by simp
  then show ?case using waitLoop_unfold_deadline by (simp add: waitInterval_def)
next
  case (Suc k)
  then have lt: "n < 60" by simp
  show ?case
  proof (cases "\<exists>r. checkFulfillment decode rid (obs n) = Inr (Return r)")
    case True
    then obtain r where "checkFulfillment decode rid (obs n) = Inr (Return r)" ..
    from waitLoop_unfold_return [of n decode rid obs r] this lt show ?thesis by auto
  next
    case False
    then have here: "\<forall>r. checkFulfillment decode rid (obs n) \<noteq> Inr (Return r)" by simp
    have step: "waitLoop decode rid obs (waitInterval * int n) n
                  = waitLoop decode rid obs (waitInterval * int (Suc n)) (Suc n)"
      using lt here by (rule waitLoop_unfold_continue)
    have "\<exists>out n'. waitLoop decode rid obs (waitInterval * int (Suc n)) (Suc n)
                     = (out, waitInterval * int n', n') \<and> Suc n \<le> n' \<and> n' \<le> 60"
      using Suc.hyps(2) lt by (intro Suc.hyps(1)) simp_all
    with step show ?thesis by (metis Suc_leD)
  qed
qed


lemma throwing_tick: "checkFulfillment decode rid throwingObs = Inl (Error TransportFailure None)"
  by (simp add: throwingObs_def checkFulfillment_def)


lemma gas_check_without_evidence:
  assumes "\<not> gasEvidence ob"
  shows "checkGasAvailable decode rid ob \<noteq> Inr (Return r)"
  using assms
  by (auto simp: gasEvidence_def checkGasAvailable_def split: option.splits)


lemma tick_without_evidence_keeps_waiting:
  assumes "\<not> evidence ob"
  shows "checkFulfillment decode rid ob \<noteq> Inr (Return r)"
proof
  assume returned: "checkFulfillment decode rid ob = Inr (Return r)"
  then have req: "requestIdRead ob"
    by (auto simp: requestIdRead_def checkFulfillment_def split: option.splits)
  show False
  proof (cases "wordEvidence ob")
    case True
    with req assms show False by (simp add: evidence_def)
  next
    case False
    with returned have none: "noWordStored ob"
      and gas: "checkGasAvailable decode rid ob = Inr (Return r)"
      by (auto simp: wordEvidence_def noWordStored_def checkFulfillment_def
               split: option.splits if_splits)
    from gas have "gasEvidence ob" using gas_check_without_evidence by blast
    with req none assms show False by (simp add: evidence_def)
  qed
qed

text \<open>
  A positive array length whose first element reads as the zero word of 66 characters
  is no evidence without the gas marker.
\<close>

lemma padded_zero_element_alone_is_no_evidence:
  assumes "firstWord ob = Some ZERO_WORD" and "\<not> gasEvidence ob"
  shows "\<not> evidence ob"
  using assms
  by (auto simp: evidence_def wordEvidence_def split: option.splits)

text \<open>
  The test on the first element compares strings: a zero that the node returns as
  \<open>0x0\<close> is not the zero word of 66 characters, and the tick returns with the word 0.
\<close>

lemma unpadded_zero_element_returns:
  "checkFulfillment decode rid unpaddedZeroObs = Inr (Return (RandomWord 0))"
  unfolding unpaddedZeroObs_def by code_simp

lemma waitLoop_times_out_without_evidence:
  assumes "\<forall>n<60. \<not> evidence (obs n)"
  shows "waitForFulfillment decode rid obs = (TimedOut, 300000, 60)"
proof -
  have "waitLoop decode rid obs (waitInterval * int 0) 0 = (TimedOut, 300000, 60)"
    using assms by (intro waitLoop_no_return) (simp_all add: tick_without_evidence_keeps_waiting)
  then show ?thesis by (simp add: waitForFulfillment_def)
qed


text \<open>
  A read that throws later in the tick undoes the evidence seen before it: with
  \<open>s_gasAvailable\<close> set and \<open>eth_getLogs\<close> throwing, the tick ends in the
  \<open>catch\<close>.
\<close>

lemma gas_evidence_lost_when_log_query_throws:
  "checkFulfillment decode rid gasThenThrowObs = Inl (Error TransportFailure None)"
  unfolding gasThenThrowObs_def by code_simp



text \<open>
  Claim C5. When no tick reports fulfillment, be it that a probe found nothing or that
  it threw, the loop reaches the deadline of 300 s after 60 ticks of 5 s and ends with
  \<open>TimedOut\<close> as its result: a tick that throws is followed by the next tick.
\<close>

theorem timeout_is_normal_outcome:
  assumes "\<forall>n<60. \<forall>r. checkFulfillment decode rid (obs n) \<noteq> Inr (Return r)"
  shows "waitForFulfillment decode rid obs = (TimedOut, 300000, 60)"
proof -
  have "waitLoop decode rid obs (waitInterval * int 0) 0 = (TimedOut, 300000, 60)"
    using assms by (intro waitLoop_no_return) simp_all
  then show ?thesis by (simp add: waitForFulfillment_def)
qed

text \<open>The run in which every call of every tick throws.\<close>

theorem timeout_is_normal_outcome_witness:
  "checkFulfillment decodeNothing 7 throwingObs = Inl (Error TransportFailure None)
   \<and> waitForFulfillment decodeNothing 7 throwingRun = (TimedOut, 300000, 60)"
proof -
  have h: "\<forall>n<60. \<forall>r. checkFulfillment decodeNothing 7 (throwingRun n) \<noteq> Inr (Return r)"
    by (simp add: throwingRun_def throwing_tick)
  from timeout_is_normal_outcome [OF h] show ?thesis by (simp add: throwing_tick)
qed

text \<open>
  Claim C9. The wait loop ends for every sequence of probe answers: each iteration adds
  the interval of 5000 ms to \<open>elapsed\<close>, whatever the probes do, so the loop is left
  after at most 60 iterations, with \<open>elapsed\<close> equal to 5000 ms times their number.
\<close>

theorem waitLoop_at_most_60_iterations:
  "snd (snd (waitForFulfillment decode rid obs)) \<le> 60
   \<and> fst (snd (waitForFulfillment decode rid obs))
       = waitInterval * int (snd (snd (waitForFulfillment decode rid obs)))"
  using waitLoop_bounded [of 0 decode rid obs] by (auto simp: waitForFulfillment_def)

text \<open>Every call of every tick throws: 60 iterations, 300000 ms.\<close>

theorem waitLoop_at_most_60_iterations_witness:
  "snd (snd (waitForFulfillment decodeNothing 7 throwingRun)) \<le> 60
   \<and> fst (snd (waitForFulfillment decodeNothing 7 throwingRun))
       = waitInterval * int (snd (snd (waitForFulfillment decodeNothing 7 throwingRun)))"
  by (rule waitLoop_at_most_60_iterations)

section \<open>Finding the subscription\<close>















text \<open>
  The v2 branch takes the second topic as it is: with a v2 log that names subscription
  5, which belongs to another address, the resolver returns 5.
\<close>

lemma resolveSubscription_v2_topic_unverified:
  "resolveSubscription v2LogExample = Inr 5
   \<and> map_option subOwner (getSubscription v2LogExample 5)
       = Some ''0x70997970C51812dc3A010C7d01b50e0d17dc79C8''
   \<and> \<not> ownerVerified v2LogExample 5"
  unfolding v2LogExample_def foreignSubscription_def by code_simp



text \<open>
  Claim C6. In the linear probe over the small ids (1 to 30) the resolver takes a
  candidate only when its owner is the caller and its request counter is zero; it never
  takes an older subscription of the caller whose counter is not zero. The loop over
  1 to 100 makes both tests; the loops over 1 to 20, 1 to 10 and 11 to 30 test the
  owner alone. In the example the loop over 1 to 100 passes over subscription 25, whose
  counter is 5, and the loop over 11 to 30 then takes it, while the subscription just
  created is number 101.
\<close>

theorem linear_probe_selects_used_subscription:
  "resolveSubscription oldSubscriptionExample = Inr 25
   \<and> map_option reqCount (getSubscription oldSubscriptionExample 25) = Some 5
   \<and> ownedAndFresh oldSubscriptionExample 101"
  unfolding oldSubscriptionExample_def usedSubscription_def newSubscription_def by code_simp

end
